theory Spec2Isabelle
  imports Main "HOL-Library.Multiset" "HOL-Library.Char_ord" "HOL-Library.List_Lexorder"
begin

section \<open>The quiz engine of NASCQUIZ\<close>

text \<open>
  The repository holds two variants of one Streamlit script: \<^verbatim>\<open>nascar_quiz-SABA51.py\<close>
  (difficulty and category filters) and the earlier \<^verbatim>\<open>nascar_quiz.py\<close> (difficulty filter
  only). The functions of the first are embedded under their own names; where the second
  differs (\<^verbatim>\<open>filter_questions_by_difficulty\<close>, \<^verbatim>\<open>start_quiz\<close>, \<^verbatim>\<open>submit_answer\<close>) its
  function is embedded too, with the suffix \<open>_v1\<close>. \<^verbatim>\<open>load_questions_from_json\<close>,
  \<^verbatim>\<open>initialize_questions\<close>, \<^verbatim>\<open>calculate_difficulty_score\<close> and the difficulty breakdown of
  the results screen are the same text in both files.

  Conventions of the embedding:
  \<^item> \<^verbatim>\<open>st.session_state\<close> is a record that every function takes and returns;
  \<^item> a question is a Python dict read from JSON: every key the code reads is an optional
    field, so that \<^verbatim>\<open>q["k"]\<close> on a missing key is the \<^verbatim>\<open>KeyError\<close> it is in Python and
    \<^verbatim>\<open>q.get("k", d)\<close> is the default; the values are taken to have the types of the
    documented input format (strings, an integer index);
  \<^item> an uncaught exception is a value of \<open>py_error\<close>, returned together with the state as
    the exception leaves it;
  \<^item> \<^verbatim>\<open>st.error\<close> and \<^verbatim>\<open>st.warning\<close> are the list of notices a function returns;
  \<^item> the cache of \<^verbatim>\<open>@st.cache_data\<close> is a map from the argument of the decorated function
    to the result and the messages of its first call, passed in and returned like the
    session state;
  \<^item> \<^verbatim>\<open>str.lower\<close> is modelled on ASCII letters (a \<open>char\<close> is a byte);
  \<^item> the counters \<^verbatim>\<open>current_question\<close> and \<^verbatim>\<open>score\<close> are only ever set to 0 and
    incremented, so they are natural numbers.
\<close>

subsection \<open>Data\<close>

record question =
  question_text :: "string option"
  options :: "string list"
  correct :: "int option"
  explanation :: "string option"
  difficulty :: "string option"
  category :: "string option"

text \<open>
  The dict appended by \<^verbatim>\<open>submit_answer\<close>. The results screen reads \<^verbatim>\<open>difficulty\<close> and
  \<^verbatim>\<open>category\<close> with \<^verbatim>\<open>answer.get\<close>, so these two are optional here as well; the
  variant \<^verbatim>\<open>nascar_quiz.py\<close> never stores a category.
\<close>

record answer =
  a_question :: string
  selected :: int
  a_correct :: int
  is_correct :: bool
  a_explanation :: string
  a_difficulty :: "string option"
  a_category :: "string option"

record session_state =
  quiz_started :: bool
  current_question :: nat
  score :: nat
  answers :: "answer list"
  quiz_questions :: "question list"
  questions_loaded :: bool
  all_questions :: "question list"
  selected_difficulty :: string
  selected_category :: string

datatype py_error = IndexError | KeyError string | ValueError

datatype message =
    FileNotFound
  | ErrorReadingJson
  | ErrorLoadingQuestions
  | NoQuestionsLoaded
  | NoQuestionsAvailable
  | NoQuestionsForSelection
  | OnlyAvailable nat

datatype notice = St_error message | St_warning message | Uncaught_exception py_error

subsection \<open>Strings\<close>

definition lower_char :: "char \<Rightarrow> char" where
  "lower_char c =
     (case map_of (zip ''ABCDEFGHIJKLMNOPQRSTUVWXYZ'' ''abcdefghijklmnopqrstuvwxyz'') c of
        None \<Rightarrow> c
      | Some l \<Rightarrow> l)"

definition lower :: "string \<Rightarrow> string" where
  "lower s = map lower_char s"

text \<open>\<^verbatim>\<open>d.get(key, default)\<close> on an optional field.\<close>

definition get_default :: "'a option \<Rightarrow> 'a \<Rightarrow> 'a" where
  "get_default v d = (case v of None \<Rightarrow> d | Some x \<Rightarrow> x)"

subsection \<open>Loading the bank\<close>

text \<open>
  What \<^verbatim>\<open>load_questions_from_json\<close> sees of the outside world: whether
  \<^verbatim>\<open>os.path.exists\<close> holds and, if so, how \<^verbatim>\<open>open\<close> and \<^verbatim>\<open>json.load\<close> end. A parsed
  document is either a JSON object, a dict whose values under the keys of interest are
  question lists, or some other JSON value, on which \<^verbatim>\<open>data.get\<close> raises
  \<^verbatim>\<open>AttributeError\<close>.
\<close>

datatype document = Not_a_dict | Dict "string \<Rightarrow> question list option"

datatype read_result = JSONDecodeError | Other_exception | Parsed document

datatype file_view = Missing | Exists read_result

text \<open>The body of \<^verbatim>\<open>load_questions_from_json\<close>, as it runs when the cache has no entry.\<close>

definition load_questions_body :: "file_view \<Rightarrow> question list \<times> notice list" where
  "load_questions_body file =
     (case file of
        Missing \<Rightarrow> ([], [St_error FileNotFound])
      | Exists JSONDecodeError \<Rightarrow> ([], [St_error ErrorReadingJson])
      | Exists Other_exception \<Rightarrow> ([], [St_error ErrorLoadingQuestions])
      | Exists (Parsed Not_a_dict) \<Rightarrow> ([], [St_error ErrorLoadingQuestions])
      | Exists (Parsed (Dict data)) \<Rightarrow> (get_default (data ''questions'') [], []))"

text \<open>
  The function is decorated with \<^verbatim>\<open>@st.cache_data\<close>: Streamlit keeps, for each value of
  \<^verbatim>\<open>file_path\<close>, the result of the first call together with the messages that call
  showed. A later call with the same path does not run the body and does not look at the
  file: it returns the kept result. Streamlit shows the kept messages again on such a
  call (it replays them, from version 1.16 on); the flag \<open>replay\<close> says whether the
  installed framework does so. \<open>file\<close> is the state of the file at \<open>file_path\<close> at the
  time of the call.
\<close>

type_synonym load_cache = "string \<Rightarrow> (question list \<times> notice list) option"

definition load_questions_from_json ::
  "bool \<Rightarrow> string \<Rightarrow> file_view \<Rightarrow> load_cache
     \<Rightarrow> (question list \<times> notice list) \<times> load_cache" where
  "load_questions_from_json replay file_path file cache =
     (case cache file_path of
        Some (qs, notes) \<Rightarrow> ((qs, if replay then notes else []), cache)
      | None \<Rightarrow>
          (let result = load_questions_body file
           in (result, cache(file_path \<mapsto> result))))"

text \<open>\<^verbatim>\<open>initialize_questions\<close> loads with the default path \<^verbatim>\<open>questions.json\<close>.\<close>

definition initialize_questions ::
  "bool \<Rightarrow> file_view \<Rightarrow> load_cache \<Rightarrow> session_state
     \<Rightarrow> bool \<times> notice list \<times> load_cache \<times> session_state" where
  "initialize_questions replay file cache s =
     (if \<not> questions_loaded s then
        (let ((qs, notes), cache') = load_questions_from_json replay ''questions.json'' file cache;
             s' = s\<lparr>all_questions := qs, questions_loaded := True\<rparr>
         in if all_questions s' = []
            then (False, notes @ [St_warning NoQuestionsLoaded], cache', s')
            else (True, notes, cache', s'))
      else (True, [], cache, s))"

subsection \<open>Filters and listings\<close>

definition filter_questions_by_difficulty :: "question list \<Rightarrow> string \<Rightarrow> question list" where
  "filter_questions_by_difficulty questions difficulty_level =
     (if difficulty_level = ''mixed'' then questions
      else filter (\<lambda>q. lower (get_default (difficulty q) '''') = lower difficulty_level) questions)"

definition filter_questions_by_category :: "question list \<Rightarrow> string \<Rightarrow> question list" where
  "filter_questions_by_category questions cat =
     (if cat = ''all'' then questions
      else filter (\<lambda>q. lower (get_default (category q) '''') = lower cat) questions)"

definition filter_questions_by_difficulty_v1 :: "session_state \<Rightarrow> string \<Rightarrow> question list" where
  "filter_questions_by_difficulty_v1 s difficulty_level =
     (if difficulty_level = ''mixed'' then all_questions s
      else filter (\<lambda>q. lower (get_default (difficulty q) '''') = lower difficulty_level)
             (all_questions s))"

text \<open>The loop of \<^verbatim>\<open>get_available_categories\<close>: an empty label is not added.\<close>

definition add_category :: "question \<Rightarrow> string set \<Rightarrow> string set" where
  "add_category q categories =
     (let cat = get_default (category q) ''Unknown''
      in if cat \<noteq> [] then insert cat categories else categories)"

definition get_available_categories :: "session_state \<Rightarrow> string list" where
  "get_available_categories s =
     (if all_questions s = [] then []
      else sorted_list_of_set (fold add_category (all_questions s) {}))"

definition get_filtered_question_count :: "session_state \<Rightarrow> string \<Rightarrow> string \<Rightarrow> nat" where
  "get_filtered_question_count s difficulty_level cat =
     (let questions = all_questions s;
          questions = (if cat \<noteq> ''all''
                       then filter (\<lambda>q. lower (get_default (category q) '''') = lower cat) questions
                       else questions);
          questions = (if difficulty_level \<noteq> ''mixed''
                       then filter (\<lambda>q. lower (get_default (difficulty q) '''') = lower difficulty_level)
                              questions
                       else questions)
      in length questions)"

subsection \<open>Sampling\<close>

text \<open>
  \<^verbatim>\<open>random.sample(population, k)\<close> belongs to Python's library: it raises
  \<^verbatim>\<open>ValueError\<close> when \<open>k\<close> exceeds the length of \<open>population\<close>, and otherwise returns the
  elements at \<open>k\<close> positions of \<open>population\<close>, no position taken twice, in the order the
  generator chose them. The generator's choice is the argument \<open>picks\<close>, an ordering of
  all positions of the population (\<open>valid_picks\<close>); the sample is taken at its first
  \<open>k\<close> positions.
\<close>

definition valid_picks :: "nat \<Rightarrow> nat list \<Rightarrow> bool" where
  "valid_picks n picks \<longleftrightarrow> distinct picks \<and> set picks = {0..<n}"

definition random_sample :: "'a list \<Rightarrow> nat \<Rightarrow> nat list \<Rightarrow> py_error + 'a list" where
  "random_sample population k picks =
     (if k \<le> length population then Inr (map (\<lambda>i. population ! i) (take k picks))
      else Inl ValueError)"

subsection \<open>The session\<close>

text \<open>
  \<^verbatim>\<open>start_quiz\<close> returns \<open>False\<close> before any assignment when the bank or the selection
  is empty. Otherwise it assigns the session fields and then calls \<^verbatim>\<open>random.sample\<close>
  with \<^verbatim>\<open>num_questions\<close>; an exception of that call would leave the function without a
  return value and with those assignments made, which the model reports as a start
  that did not succeed, with the notice \<open>Uncaught_exception\<close>.
\<close>

definition start_quiz ::
  "string \<Rightarrow> string \<Rightarrow> nat list \<Rightarrow> session_state \<Rightarrow> bool \<times> notice list \<times> session_state" where
  "start_quiz difficulty_level cat picks s =
     (if all_questions s = [] then (False, [St_error NoQuestionsAvailable], s)
      else
        let available_questions = filter_questions_by_category (all_questions s) cat;
            available_questions = filter_questions_by_difficulty available_questions difficulty_level
        in if available_questions = [] then (False, [St_error NoQuestionsForSelection], s)
           else
             let notes = (if length available_questions < 5
                          then [St_warning (OnlyAvailable (length available_questions))] else []);
                 s = s\<lparr>quiz_started := True, current_question := 0, score := 0, answers := [],
                        selected_difficulty := difficulty_level, selected_category := cat\<rparr>;
                 num_questions = min 5 (length available_questions)
             in case random_sample available_questions num_questions picks of
                  Inr drawn \<Rightarrow> (True, notes, s\<lparr>quiz_questions := drawn\<rparr>)
                | Inl e \<Rightarrow> (False, notes @ [Uncaught_exception e], s))"

definition start_quiz_v1 ::
  "string \<Rightarrow> nat list \<Rightarrow> session_state \<Rightarrow> bool \<times> notice list \<times> session_state" where
  "start_quiz_v1 difficulty_level picks s =
     (if all_questions s = [] then (False, [St_error NoQuestionsAvailable], s)
      else
        let available_questions = filter_questions_by_difficulty_v1 s difficulty_level
        in if available_questions = [] then (False, [St_error NoQuestionsForSelection], s)
           else
             let notes = (if length available_questions < 5
                          then [St_warning (OnlyAvailable (length available_questions))] else []);
                 s = s\<lparr>quiz_started := True, current_question := 0, score := 0, answers := [],
                        selected_difficulty := difficulty_level\<rparr>;
                 num_questions = min 5 (length available_questions)
             in case random_sample available_questions num_questions picks of
                  Inr drawn \<Rightarrow> (True, notes, s\<lparr>quiz_questions := drawn\<rparr>)
                | Inl e \<Rightarrow> (False, notes @ [Uncaught_exception e], s))"

text \<open>
  \<^verbatim>\<open>submit_answer\<close> indexes the drawn list first (\<^verbatim>\<open>IndexError\<close> past its end), reads
  \<^verbatim>\<open>current_q["correct"]\<close>, increments the score, and only then builds the record: a
  \<^verbatim>\<open>KeyError\<close> on \<^verbatim>\<open>"question"\<close> or \<^verbatim>\<open>"explanation"\<close> leaves the incremented score behind.
  The selected option is compared with the correct index and never with the option list.
\<close>

definition submit_answer :: "int \<Rightarrow> session_state \<Rightarrow> py_error option \<times> session_state" where
  "submit_answer selected_option s =
     (if current_question s < length (quiz_questions s) then
        let current_q = quiz_questions s ! current_question s
        in case correct current_q of
             None \<Rightarrow> (Some (KeyError ''correct''), s)
           | Some c \<Rightarrow>
               let is_c = (selected_option = c);
                   s = (if is_c then s\<lparr>score := score s + 1\<rparr> else s)
               in case question_text current_q of
                    None \<Rightarrow> (Some (KeyError ''question''), s)
                  | Some qt \<Rightarrow>
                      (case explanation current_q of
                         None \<Rightarrow> (Some (KeyError ''explanation''), s)
                       | Some ex \<Rightarrow>
                           (None,
                            s\<lparr>answers := answers s @
                                 [\<lparr>a_question = qt, selected = selected_option, a_correct = c,
                                   is_correct = is_c, a_explanation = ex,
                                   a_difficulty = Some (get_default (difficulty current_q) ''medium''),
                                   a_category = Some (get_default (category current_q) ''Unknown'')\<rparr>],
                              current_question := current_question s + 1\<rparr>))
      else (Some IndexError, s))"

definition submit_answer_v1 :: "int \<Rightarrow> session_state \<Rightarrow> py_error option \<times> session_state" where
  "submit_answer_v1 selected_option s =
     (if current_question s < length (quiz_questions s) then
        let current_q = quiz_questions s ! current_question s
        in case correct current_q of
             None \<Rightarrow> (Some (KeyError ''correct''), s)
           | Some c \<Rightarrow>
               let is_c = (selected_option = c);
                   s = (if is_c then s\<lparr>score := score s + 1\<rparr> else s)
               in case question_text current_q of
                    None \<Rightarrow> (Some (KeyError ''question''), s)
                  | Some qt \<Rightarrow>
                      (case explanation current_q of
                         None \<Rightarrow> (Some (KeyError ''explanation''), s)
                       | Some ex \<Rightarrow>
                           (None,
                            s\<lparr>answers := answers s @
                                 [\<lparr>a_question = qt, selected = selected_option, a_correct = c,
                                   is_correct = is_c, a_explanation = ex,
                                   a_difficulty = Some (get_default (difficulty current_q) ''medium''),
                                   a_category = None\<rparr>],
                              current_question := current_question s + 1\<rparr>))
      else (Some IndexError, s))"

definition reset_quiz :: "session_state \<Rightarrow> session_state" where
  "reset_quiz s =
     s\<lparr>quiz_started := False, current_question := 0, score := 0, answers := [],
       quiz_questions := []\<rparr>"

text \<open>
  Successive calls of \<^verbatim>\<open>submit_answer\<close>, one per selected option, as the page makes them;
  the first uncaught exception ends the run. \<open>v1\<close> chooses the variant.
\<close>

fun submit_answers :: "bool \<Rightarrow> int list \<Rightarrow> session_state \<Rightarrow> py_error option \<times> session_state" where
  "submit_answers v1 [] s = (None, s)"
| "submit_answers v1 (x # xs) s =
     (case (if v1 then submit_answer_v1 x s else submit_answer x s) of
        (None, s') \<Rightarrow> submit_answers v1 xs s'
      | (Some e, s') \<Rightarrow> (Some e, s'))"

subsection \<open>Scoring\<close>

definition difficulty_weights :: "string \<Rightarrow> nat option" where
  "difficulty_weights = [''easy'' \<mapsto> 1, ''medium'' \<mapsto> 2, ''hard'' \<mapsto> 3]"

text \<open>
  The loop of \<^verbatim>\<open>calculate_difficulty_score\<close> over \<^verbatim>\<open>enumerate(answers)\<close>: the difficulty
  is read from the drawn question at the same index, not from the answer record, and an
  index past the drawn list is an \<^verbatim>\<open>IndexError\<close>.
\<close>

fun difficulty_score_loop ::
  "question list \<Rightarrow> nat \<Rightarrow> answer list \<Rightarrow> nat \<times> nat \<Rightarrow> py_error + nat \<times> nat" where
  "difficulty_score_loop qs i [] acc = Inr acc"
| "difficulty_score_loop qs i (a # rest) (total_weighted_score, max_possible_score) =
     (if i < length qs then
        let q = qs ! i;
            d = lower (get_default (difficulty q) ''medium'');
            weight = get_default (difficulty_weights d) 2;
            max_possible_score = max_possible_score + weight;
            total_weighted_score =
              (if is_correct a then total_weighted_score + weight else total_weighted_score)
        in difficulty_score_loop qs (i + 1) rest (total_weighted_score, max_possible_score)
      else Inl IndexError)"

definition calculate_difficulty_score ::
  "answer list \<Rightarrow> session_state \<Rightarrow> py_error + nat \<times> nat" where
  "calculate_difficulty_score as s = difficulty_score_loop (quiz_questions s) 0 as (0, 0)"

text \<open>
  The difficulty breakdown of the results screen: a dict with the three keys, each
  holding \<^verbatim>\<open>[correct, total]\<close>; an answer whose lower-cased difficulty is not a key is
  skipped.
\<close>

definition breakdown_step ::
  "answer \<Rightarrow> (string \<Rightarrow> (nat \<times> nat) option) \<Rightarrow> (string \<Rightarrow> (nat \<times> nat) option)" where
  "breakdown_step a m =
     (let diff = lower (get_default (a_difficulty a) ''medium'')
      in case m diff of
           None \<Rightarrow> m
         | Some (c, t) \<Rightarrow> m(diff \<mapsto> (if is_correct a then c + 1 else c, t + 1)))"

definition difficulty_breakdown :: "answer list \<Rightarrow> (string \<Rightarrow> (nat \<times> nat) option)" where
  "difficulty_breakdown as =
     fold breakdown_step as [''easy'' \<mapsto> (0, 0), ''medium'' \<mapsto> (0, 0), ''hard'' \<mapsto> (0, 0)]"

subsection \<open>Notions used to state the properties\<close>

text \<open>
  \<open>recorded xs s\<close>: the session \<open>s\<close> is what a started quiz looks like after the
  selections \<open>xs\<close> have been submitted, one record per selection, each taken from the
  drawn question at its index.
\<close>

definition recorded :: "int list \<Rightarrow> session_state \<Rightarrow> bool" where
  "recorded xs s \<longleftrightarrow>
     current_question s = length xs \<and>
     length xs \<le> length (quiz_questions s) \<and>
     score s = length (filter is_correct (answers s)) \<and>
     map selected (answers s) = xs \<and>
     map is_correct (answers s) = map (\<lambda>a. selected a = a_correct a) (answers s) \<and>
     map (\<lambda>a. Some (a_correct a)) (answers s) = map correct (take (length xs) (quiz_questions s)) \<and>
     map a_difficulty (answers s) =
       map (\<lambda>q. Some (get_default (difficulty q) ''medium'')) (take (length xs) (quiz_questions s))"

text \<open>
  The weight of an answer as the specification words it: 1 for easy, 2 for medium, 3 for
  hard, 2 for any other or no difficulty, compared without regard to case; and the
  weighted score of a log as the two sums.
\<close>

definition spec_weight :: "answer \<Rightarrow> nat" where
  "spec_weight a =
     (case a_difficulty a of
        None \<Rightarrow> 2
      | Some d \<Rightarrow>
          if lower d = ''easy'' then 1
          else if lower d = ''medium'' then 2
          else if lower d = ''hard'' then 3
          else 2)"

definition spec_weighted_score :: "answer list \<Rightarrow> nat \<times> nat" where
  "spec_weighted_score as =
     (sum_list (map spec_weight (filter is_correct as)), sum_list (map spec_weight as))"

text \<open>The key under which the breakdown looks an answer up.\<close>

definition breakdown_key :: "answer \<Rightarrow> string" where
  "breakdown_key a = lower (get_default (a_difficulty a) ''medium'')"

text \<open>A question whose category key is present with a label that lower-cases to \<open>unknown\<close>.\<close>

definition labelled_unknown :: "question \<Rightarrow> bool" where
  "labelled_unknown q = (case category q of None \<Rightarrow> False | Some c \<Rightarrow> lower c = ''unknown'')"

subsection \<open>Concrete sessions\<close>

text \<open>The session state as the script initialises it.\<close>

definition initial_state :: session_state where
  "initial_state =
     \<lparr>quiz_started = False, current_question = 0, score = 0, answers = [], quiz_questions = [],
      questions_loaded = False, all_questions = [], selected_difficulty = ''mixed'',
      selected_category = ''all''\<rparr>"

definition mk_question :: "string \<Rightarrow> int \<Rightarrow> string option \<Rightarrow> string option \<Rightarrow> question" where
  "mk_question t c d cat =
     \<lparr>question_text = Some t, options = [''A'', ''B''], correct = Some c,
      explanation = Some ''because'', difficulty = d, category = cat\<rparr>"

text \<open>Three easy and two hard questions, as in the specification's example.\<close>

definition bank5 :: "question list" where
  "bank5 =
     [mk_question ''e1'' 0 (Some ''easy'') (Some ''History''),
      mk_question ''h1'' 1 (Some ''hard'') (Some ''Tracks''),
      mk_question ''e2'' 1 (Some ''Easy'') (Some ''history''),
      mk_question ''h2'' 0 (Some ''hard'') (Some ''Cars''),
      mk_question ''e3'' 0 (Some ''easy'') (Some ''Cars'')]"

definition loaded5 :: session_state where
  "loaded5 = initial_state\<lparr>all_questions := bank5, questions_loaded := True\<rparr>"

text \<open>An ordering of the positions of three available questions.\<close>

definition picks3 :: "nat list" where
  "picks3 = [2, 0, 1]"

text \<open>The quiz started on the easy questions of \<open>loaded5\<close> with these positions.\<close>

definition started3 :: session_state where
  "started3 =
     loaded5\<lparr>quiz_started := True, current_question := 0, score := 0, answers := [],
             selected_difficulty := ''easy'', selected_category := ''all'',
             quiz_questions := [bank5 ! 4, bank5 ! 0, bank5 ! 2]\<rparr>"

text \<open>Seven questions, and the positions of all seven in descending order.\<close>

definition bank7 :: "question list" where
  "bank7 =
     map (\<lambda>t. mk_question t 0 (Some ''easy'') (Some ''Cars''))
       [''q0'', ''q1'', ''q2'', ''q3'', ''q4'', ''q5'', ''q6'']"

definition loaded7 :: session_state where
  "loaded7 = initial_state\<lparr>all_questions := bank7, questions_loaded := True\<rparr>"

definition picks7 :: "nat list" where
  "picks7 = [6, 5, 4, 3, 2, 1, 0]"

text \<open>A bank with a question that has neither difficulty nor category.\<close>

definition bare_question :: question where
  "bare_question = mk_question ''b1'' 0 None None"

definition loaded_bare :: session_state where
  "loaded_bare =
     initial_state\<lparr>all_questions := [bare_question, mk_question ''u1'' 1 (Some ''easy'') (Some ''Unknown'')],
                    questions_loaded := True\<rparr>"

text \<open>A quiz in progress on one easy and one hard question.\<close>

definition in_progress :: session_state where
  "in_progress =
     initial_state\<lparr>quiz_started := True,
                    quiz_questions := [mk_question ''e1'' 0 (Some ''easy'') (Some ''History''),
                                       mk_question ''h1'' 1 (Some ''Hard'') (Some ''Tracks'')]\<rparr>"

text \<open>The log of answering 0 to both questions of \<open>in_progress\<close>.\<close>

definition log2 :: "answer list" where
  "log2 =
     [\<lparr>a_question = ''e1'', selected = 0, a_correct = 0, is_correct = True,
       a_explanation = ''because'', a_difficulty = Some ''easy'', a_category = Some ''History''\<rparr>,
      \<lparr>a_question = ''h1'', selected = 0, a_correct = 1, is_correct = False,
       a_explanation = ''because'', a_difficulty = Some ''Hard'', a_category = Some ''Tracks''\<rparr>]"

text \<open>A quiz in progress on the question without difficulty and category.\<close>

definition in_progress_bare :: session_state where
  "in_progress_bare = initial_state\<lparr>quiz_started := True, quiz_questions := [bare_question]\<rparr>"

text \<open>A record as no call of \<^verbatim>\<open>submit_answer\<close> builds it: without the difficulty key.\<close>

definition record_without_difficulty :: answer where
  "record_without_difficulty =
     \<lparr>a_question = ''b1'', selected = 1, a_correct = 0, is_correct = False,
      a_explanation = ''because'', a_difficulty = None, a_category = None\<rparr>"

section \<open>Properties\<close>

subsection \<open>Lower-casing\<close>

lemmas string_defs = lower_def lower_char_def get_default_def

lemma lower_literals:
  "lower ''easy'' = ''easy''" "lower ''medium'' = ''medium''" "lower ''hard'' = ''hard''"
  "lower ''Unknown'' = ''unknown''" "lower ''unknown'' = ''unknown''"
  by (simp_all add: lower_def lower_char_def)

subsection \<open>Filters\<close>

lemma count_is_filtered_length:
  "get_filtered_question_count s d c =
     length (filter_questions_by_difficulty (filter_questions_by_category (all_questions s) c) d)"
  by (simp add: get_filtered_question_count_def filter_questions_by_difficulty_def
      filter_questions_by_category_def)

lemma filter_v1_is_all:
  "filter_questions_by_difficulty_v1 s d =
     filter_questions_by_difficulty (filter_questions_by_category (all_questions s) ''all'') d"
  by (simp add: filter_questions_by_difficulty_v1_def filter_questions_by_difficulty_def
      filter_questions_by_category_def)

text \<open>
  Claim C5. For every bank and every pair of filters, the count of matching questions is
  the length of the bank filtered by difficulty and then by category, and also of the
  bank filtered by category and then by difficulty: the two filters commute.
\<close>

theorem filters_commute:
  "get_filtered_question_count s d c =
     length (filter_questions_by_category (filter_questions_by_difficulty (all_questions s) d) c)
   \<and> get_filtered_question_count s d c =
     length (filter_questions_by_difficulty (filter_questions_by_category (all_questions s) c) d)
   \<and> filter_questions_by_category (filter_questions_by_difficulty (all_questions s) d) c =
     filter_questions_by_difficulty (filter_questions_by_category (all_questions s) c) d"
  by (simp add: get_filtered_question_count_def filter_questions_by_difficulty_def
      filter_questions_by_category_def conj_commute)

subsection \<open>Answering a complete session\<close>

text \<open>
  Claim C1. When the position has reached the length of the drawn list, a further call
  of \<^verbatim>\<open>submit_answer\<close> fails (the \<^verbatim>\<open>IndexError\<close> of the list access is how the code
  signals the complete session) and leaves the whole session state as it was; a second
  call fails in the same way. Both variants of the script behave so.
\<close>

theorem submit_answer_complete:
  assumes "length (quiz_questions s) \<le> current_question s"
  shows "submit_answer x s = (Some IndexError, s)
       \<and> submit_answer y (snd (submit_answer x s)) = (Some IndexError, s)
       \<and> submit_answer_v1 x s = (Some IndexError, s)
       \<and> submit_answer_v1 y (snd (submit_answer_v1 x s)) = (Some IndexError, s)"
  using assms by (simp add: submit_answer_def submit_answer_v1_def)

theorem submit_answer_complete_witness:
  "length (quiz_questions (in_progress\<lparr>current_question := 2\<rparr>))
     \<le> current_question (in_progress\<lparr>current_question := 2\<rparr>)
   \<and> submit_answer 1 (in_progress\<lparr>current_question := 2\<rparr>)
     = (Some IndexError, in_progress\<lparr>current_question := 2\<rparr>)
   \<and> submit_answer_v1 1 (in_progress\<lparr>current_question := 2\<rparr>)
     = (Some IndexError, in_progress\<lparr>current_question := 2\<rparr>)"
  using submit_answer_complete [of "in_progress\<lparr>current_question := 2\<rparr>" 1 1]
  by (simp add: in_progress_def initial_state_def mk_question_def)

subsection \<open>A failed start\<close>

text \<open>
  Claim C8. When \<^verbatim>\<open>start_quiz\<close> fails, because the bank is empty or because no question
  matches the filters, it returns the session state it was given: drawn questions,
  position, score, answer log and recorded filters are as before the call. Both variants.
\<close>

theorem start_quiz_failure_keeps_state:
  "(all_questions s = [] \<longrightarrow>
      start_quiz d c picks s = (False, [St_error NoQuestionsAvailable], s)
      \<and> start_quiz_v1 d picks s = (False, [St_error NoQuestionsAvailable], s))
   \<and> (all_questions s \<noteq> [] \<and> get_filtered_question_count s d c = 0 \<longrightarrow>
      start_quiz d c picks s = (False, [St_error NoQuestionsForSelection], s))
   \<and> (all_questions s \<noteq> [] \<and> filter_questions_by_difficulty_v1 s d = [] \<longrightarrow>
      start_quiz_v1 d picks s = (False, [St_error NoQuestionsForSelection], s))
   \<and> (\<not> fst (start_quiz d c picks s) \<longrightarrow> snd (snd (start_quiz d c picks s)) = s)
   \<and> (\<not> fst (start_quiz_v1 d picks s) \<longrightarrow> snd (snd (start_quiz_v1 d picks s)) = s)"
  by (auto simp: start_quiz_def start_quiz_v1_def count_is_filtered_length random_sample_def
      Let_def)

theorem start_quiz_failure_keeps_state_witness:
  "all_questions (in_progress\<lparr>score := 1\<rparr>) = []
   \<and> start_quiz ''easy'' ''all'' [] (in_progress\<lparr>score := 1\<rparr>)
       = (False, [St_error NoQuestionsAvailable], in_progress\<lparr>score := 1\<rparr>)
   \<and> all_questions loaded5 \<noteq> [] \<and> get_filtered_question_count loaded5 ''medium'' ''all'' = 0
   \<and> start_quiz ''medium'' ''all'' [] loaded5 = (False, [St_error NoQuestionsForSelection], loaded5)
   \<and> filter_questions_by_difficulty_v1 loaded5 ''medium'' = []
   \<and> start_quiz_v1 ''medium'' [] loaded5 = (False, [St_error NoQuestionsForSelection], loaded5)
   \<and> \<not> fst (start_quiz ''medium'' ''all'' [] loaded5)
   \<and> snd (snd (start_quiz ''medium'' ''all'' [] loaded5)) = loaded5
   \<and> \<not> fst (start_quiz_v1 ''medium'' [] loaded5)
   \<and> snd (snd (start_quiz_v1 ''medium'' [] loaded5)) = loaded5"
proof -
  have a: "all_questions (in_progress\<lparr>score := 1\<rparr>) = []"
    by (simp add: in_progress_def initial_state_def mk_question_def)
  have b: "all_questions loaded5 \<noteq> []"
    by (simp add: loaded5_def bank5_def initial_state_def mk_question_def)
  have c: "get_filtered_question_count loaded5 ''medium'' ''all'' = 0"
    by (simp add: get_filtered_question_count_def loaded5_def bank5_def initial_state_def mk_question_def string_defs)
  have d: "filter_questions_by_difficulty_v1 loaded5 ''medium'' = []"
    by (simp add: filter_questions_by_difficulty_v1_def loaded5_def bank5_def initial_state_def mk_question_def string_defs)
  show ?thesis
    using a b c d
      start_quiz_failure_keeps_state [of "in_progress\<lparr>score := 1\<rparr>" "''easy''" "''all''" "[]"]
      start_quiz_failure_keeps_state [of loaded5 "''medium''" "''all''" "[]"]
    by simp
qed

subsection \<open>Sampling without replacement\<close>

lemma mset_nth_upt: "image_mset (\<lambda>i. xs ! i) (mset_set {0..<length xs}) = mset xs"
proof -
  have "image_mset (\<lambda>i. xs ! i) (mset [0..<length xs]) = mset (map (\<lambda>i. xs ! i) [0..<length xs])"
    by (simp only: mset_map)
  then show ?thesis by (simp add: map_nth)
qed

lemma valid_picks_length: "valid_picks n picks \<Longrightarrow> length picks = n"
proof -
  assume v: "valid_picks n picks"
  have d: "distinct picks" and e: "set picks = {0..<n}"
    using v by (simp_all add: valid_picks_def)
  have "length picks = card (set picks)"
    using d by (simp add: distinct_card)
  also have "\<dots> = n"
    by (simp add: e)
  finally show ?thesis .
qed

text \<open>The elements at the first \<open>k\<close> chosen positions.\<close>

lemma sample_mset:
  assumes "valid_picks (length xs) picks"
  shows "mset (map (\<lambda>i. xs ! i) (take k picks)) \<subseteq># mset xs"
proof -
  have d: "distinct (take k picks)"
    using assms by (simp add: valid_picks_def)
  have "set (take k picks) \<subseteq> set picks"
    by (rule set_take_subset)
  then have b: "set (take k picks) \<subseteq> {0..<length xs}"
    using assms by (simp add: valid_picks_def)
  have "mset (take k picks) = mset_set (set (take k picks))"
    using d by (simp add: mset_set_set)
  also have "\<dots> \<subseteq># mset_set {0..<length xs}"
    using b by (simp add: subset_imp_msubset_mset_set)
  finally have "image_mset (\<lambda>i. xs ! i) (mset (take k picks))
      \<subseteq># image_mset (\<lambda>i. xs ! i) (mset_set {0..<length xs})"
    by (rule image_mset_subseteq_mono)
  then show ?thesis
    by (simp only: mset_nth_upt mset_map)
qed

lemma sample_whole:
  assumes "valid_picks (length xs) picks" and "length xs \<le> k"
  shows "mset (map (\<lambda>i. xs ! i) (take k picks)) = mset xs"
proof -
  have t: "take k picks = picks"
    using assms valid_picks_length [OF assms(1)] by simp
  have d: "distinct picks" and e: "set picks = {0..<length xs}"
    using assms(1) by (simp_all add: valid_picks_def)
  have "mset picks = mset_set (set picks)"
    using d by (simp add: mset_set_set)
  then have "mset picks = mset_set {0..<length xs}"
    by (simp only: e)
  then have "image_mset (\<lambda>i. xs ! i) (mset picks)
      = image_mset (\<lambda>i. xs ! i) (mset_set {0..<length xs})"
    by simp
  then show ?thesis
    by (simp only: t mset_nth_upt mset_map)
qed

lemma sample_distinct:
  assumes "valid_picks (length xs) picks" and "distinct xs"
  shows "distinct (map (\<lambda>i. xs ! i) (take k picks))"
proof -
  have d: "distinct (take k picks)"
    using assms(1) by (simp add: valid_picks_def)
  have "set (take k picks) \<subseteq> set picks"
    by (rule set_take_subset)
  then have b: "\<forall>i \<in> set (take k picks). i < length xs"
    using assms(1) by (auto simp: valid_picks_def)
  show ?thesis
    using d b assms(2) by (auto simp: distinct_map inj_on_def nth_eq_iff_index_eq)
qed

lemma drawn_of_available:
  assumes "valid_picks (length av) picks" and "k \<le> length av"
  shows "length (map (\<lambda>i. av ! i) (take k picks)) = k
       \<and> mset (map (\<lambda>i. av ! i) (take k picks)) \<subseteq># mset av
       \<and> set (map (\<lambda>i. av ! i) (take k picks)) \<subseteq> set av
       \<and> (distinct av \<longrightarrow> distinct (map (\<lambda>i. av ! i) (take k picks)))
       \<and> (length av \<le> k \<longrightarrow> mset (map (\<lambda>i. av ! i) (take k picks)) = mset av)"
proof -
  let ?d = "map (\<lambda>i. av ! i) (take k picks)"
  have l: "length ?d = k"
    using assms(2) valid_picks_length [OF assms(1)] by simp
  have m: "mset ?d \<subseteq># mset av"
    using assms(1) by (rule sample_mset)
  have "set_mset (mset ?d) \<subseteq> set_mset (mset av)"
    using m by (rule set_mset_mono)
  then have s: "set ?d \<subseteq> set av"
    by simp
  have w: "mset ?d = mset av" if "length av \<le> k"
    using assms(1) that by (rule sample_whole)
  have di: "distinct ?d" if "distinct av"
    using assms(1) that by (rule sample_distinct)
  show ?thesis
    using l m s w di by blast
qed

text \<open>
  \<^verbatim>\<open>start_quiz\<close> asks for \<open>min 5 (number available)\<close> questions, never more than there
  are: the call of \<^verbatim>\<open>random.sample\<close> returns, and a successful start has drawn the
  sample of that size.
\<close>

lemma random_sample_num_questions:
  "random_sample av (min 5 (length av)) picks
     = Inr (map (\<lambda>i. av ! i) (take (min 5 (length av)) picks))"
  by (simp add: random_sample_def)

lemma start_quiz_success:
  assumes "fst (start_quiz d c picks s)"
  shows "quiz_questions (snd (snd (start_quiz d c picks s))) =
           map (\<lambda>i. filter_questions_by_difficulty
                       (filter_questions_by_category (all_questions s) c) d ! i)
             (take (min 5 (get_filtered_question_count s d c)) picks)"
  using assms
  by (auto simp: start_quiz_def count_is_filtered_length random_sample_num_questions Let_def
      split: if_splits)

lemma start_quiz_v1_success:
  assumes "fst (start_quiz_v1 d picks s)"
  shows "quiz_questions (snd (snd (start_quiz_v1 d picks s))) =
           map (\<lambda>i. filter_questions_by_difficulty_v1 s d ! i)
             (take (min 5 (length (filter_questions_by_difficulty_v1 s d))) picks)"
  using assms
  by (auto simp: start_quiz_v1_def random_sample_num_questions Let_def split: if_splits)

lemma start_quiz_never_raises:
  "Uncaught_exception e \<notin> set (fst (snd (start_quiz d c picks s)))
   \<and> Uncaught_exception e \<notin> set (fst (snd (start_quiz_v1 d picks s)))"
  by (auto simp: start_quiz_def start_quiz_v1_def random_sample_num_questions Let_def)

text \<open>
  Claim C4. When \<^verbatim>\<open>start_quiz\<close> succeeds, the drawn list has exactly
  \<open>min 5 (count of matching questions)\<close> entries, no entry of the filtered list is drawn
  more often than it occurs there (so a filtered list without repetition gives a drawn
  list without repetition), every drawn question is in the filtered list, and when at
  most five questions match the drawn list is the whole filtered list in some order.
  The earlier variant draws in the same way from its difficulty filter.
\<close>

theorem start_quiz_draws:
  assumes "fst (start_quiz d c picks s)"
    and "valid_picks (get_filtered_question_count s d c) picks"
  shows "(let available =
            filter_questions_by_difficulty (filter_questions_by_category (all_questions s) c) d;
          drawn = quiz_questions (snd (snd (start_quiz d c picks s)))
          in length drawn = min 5 (get_filtered_question_count s d c)
             \<and> mset drawn \<subseteq># mset available
             \<and> set drawn \<subseteq> set available
             \<and> (distinct available \<longrightarrow> distinct drawn)
             \<and> (get_filtered_question_count s d c \<le> 5 \<longrightarrow> mset drawn = mset available)
             \<and> (c = ''all'' \<longrightarrow>
                  fst (start_quiz_v1 d picks s)
                  \<and> quiz_questions (snd (snd (start_quiz_v1 d picks s))) = drawn
                  \<and> filter_questions_by_difficulty_v1 s d = available))"
proof -
  let ?av = "filter_questions_by_difficulty (filter_questions_by_category (all_questions s) c) d"
  let ?dr = "map (\<lambda>i. ?av ! i) (take (min 5 (length ?av)) picks)"
  have n: "get_filtered_question_count s d c = length ?av"
    by (rule count_is_filtered_length)
  have v: "valid_picks (length ?av) picks"
    using assms(2) by (simp only: n)
  have dr: "quiz_questions (snd (snd (start_quiz d c picks s))) = ?dr"
    using start_quiz_success [OF assms(1)] by (simp only: n)
  have k: "min 5 (length ?av) \<le> length ?av"
    by simp
  have whole: "length ?av \<le> min 5 (length ?av)" if "length ?av \<le> 5"
    using that by simp
  have v1: "fst (start_quiz_v1 d picks s)
      \<and> quiz_questions (snd (snd (start_quiz_v1 d picks s))) = ?dr
      \<and> filter_questions_by_difficulty_v1 s d = ?av" if "c = ''all''"
  proof -
    have f: "filter_questions_by_difficulty_v1 s d = ?av"
      using that by (simp add: filter_v1_is_all)
    have ok: "fst (start_quiz_v1 d picks s)"
      using assms(1) that
      by (auto simp: start_quiz_def start_quiz_v1_def filter_v1_is_all
          random_sample_num_questions Let_def split: if_splits)
    show ?thesis
      using ok f start_quiz_v1_success [OF ok] by simp
  qed
  show ?thesis
    using drawn_of_available [OF v k] v1 whole by (simp add: Let_def dr n)
qed

lemma start_easy_example:
  "start_quiz ''easy'' ''all'' picks3 loaded5 = (True, [St_warning (OnlyAvailable 3)], started3)"
  by (simp add: start_quiz_def filter_questions_by_category_def started3_def
      filter_questions_by_difficulty_def random_sample_def picks3_def loaded5_def bank5_def
      initial_state_def mk_question_def string_defs)

text \<open>
  The witness starts the specification's example (three easy questions among five, all
  three drawn) and a quiz on seven questions, of which five are drawn.
\<close>

theorem start_quiz_draws_witness:
  "fst (start_quiz ''easy'' ''all'' picks3 loaded5)
   \<and> valid_picks (get_filtered_question_count loaded5 ''easy'' ''all'') picks3
   \<and> get_filtered_question_count loaded5 ''easy'' ''all'' = 3
   \<and> quiz_questions (snd (snd (start_quiz ''easy'' ''all'' picks3 loaded5)))
        = [bank5 ! 4, bank5 ! 0, bank5 ! 2]
   \<and> length (quiz_questions (snd (snd (start_quiz ''easy'' ''all'' picks3 loaded5)))) = 3
   \<and> mset (quiz_questions (snd (snd (start_quiz ''easy'' ''all'' picks3 loaded5))))
        = mset (filter_questions_by_difficulty
                 (filter_questions_by_category (all_questions loaded5) ''all'') ''easy'')
   \<and> fst (start_quiz ''mixed'' ''all'' picks7 loaded7)
   \<and> valid_picks (get_filtered_question_count loaded7 ''mixed'' ''all'') picks7
   \<and> get_filtered_question_count loaded7 ''mixed'' ''all'' = 7
   \<and> length (quiz_questions (snd (snd (start_quiz ''mixed'' ''all'' picks7 loaded7)))) = 5
   \<and> quiz_questions (snd (snd (start_quiz ''mixed'' ''all'' picks7 loaded7)))
        = [bank7 ! 6, bank7 ! 5, bank7 ! 4, bank7 ! 3, bank7 ! 2]"
proof -
  have n: "get_filtered_question_count loaded5 ''easy'' ''all'' = 3"
    by (simp add: get_filtered_question_count_def loaded5_def bank5_def initial_state_def
        mk_question_def string_defs)
  have v: "valid_picks (get_filtered_question_count loaded5 ''easy'' ''all'') picks3"
    by (auto simp: n valid_picks_def picks3_def)
  note q = start_easy_example
  have ok: "fst (start_quiz ''easy'' ''all'' picks3 loaded5)"
    by (simp add: q)
  have n7: "get_filtered_question_count loaded7 ''mixed'' ''all'' = 7"
    by (simp add: get_filtered_question_count_def loaded7_def bank7_def initial_state_def)
  have v7: "valid_picks (get_filtered_question_count loaded7 ''mixed'' ''all'') picks7"
    by (auto simp: n7 valid_picks_def picks7_def)
  have q7: "start_quiz ''mixed'' ''all'' picks7 loaded7 =
      (True, [],
       loaded7\<lparr>quiz_started := True, current_question := 0, score := 0, answers := [],
               selected_difficulty := ''mixed'', selected_category := ''all'',
               quiz_questions := [bank7 ! 6, bank7 ! 5, bank7 ! 4, bank7 ! 3, bank7 ! 2]\<rparr>)"
    by (simp add: start_quiz_def filter_questions_by_category_def
        filter_questions_by_difficulty_def random_sample_def picks7_def loaded7_def bank7_def
        initial_state_def)
  have ok7: "fst (start_quiz ''mixed'' ''all'' picks7 loaded7)"
    by (simp add: q7)
  show ?thesis
    using start_quiz_draws [OF ok v] start_quiz_draws [OF ok7 v7] ok v n ok7 v7 n7
    by (simp add: Let_def q q7 started3_def)
qed

subsection \<open>Answering\<close>

text \<open>What a call of \<^verbatim>\<open>submit_answer\<close> that returns has done.\<close>

lemma submit_answer_returns:
  assumes "submit_answer x s = (None, s')"
  shows "current_question s < length (quiz_questions s)
       \<and> (\<exists>c qt ex.
            correct (quiz_questions s ! current_question s) = Some c
          \<and> question_text (quiz_questions s ! current_question s) = Some qt
          \<and> explanation (quiz_questions s ! current_question s) = Some ex
          \<and> s' = s\<lparr>score := (if x = c then score s + 1 else score s),
                    answers := answers s @
                      [\<lparr>a_question = qt, selected = x, a_correct = c, is_correct = (x = c),
                        a_explanation = ex,
                        a_difficulty = Some (get_default
                          (difficulty (quiz_questions s ! current_question s)) ''medium''),
                        a_category = Some (get_default
                          (category (quiz_questions s ! current_question s)) ''Unknown'')\<rparr>],
                    current_question := current_question s + 1\<rparr>)"
  using assms
  by (auto simp: submit_answer_def Let_def split: if_splits option.splits)

lemma submit_answer_v1_returns:
  assumes "submit_answer_v1 x s = (None, s')"
  shows "current_question s < length (quiz_questions s)
       \<and> (\<exists>c qt ex.
            correct (quiz_questions s ! current_question s) = Some c
          \<and> question_text (quiz_questions s ! current_question s) = Some qt
          \<and> explanation (quiz_questions s ! current_question s) = Some ex
          \<and> s' = s\<lparr>score := (if x = c then score s + 1 else score s),
                    answers := answers s @
                      [\<lparr>a_question = qt, selected = x, a_correct = c, is_correct = (x = c),
                        a_explanation = ex,
                        a_difficulty = Some (get_default
                          (difficulty (quiz_questions s ! current_question s)) ''medium''),
                        a_category = None\<rparr>],
                    current_question := current_question s + 1\<rparr>)"
  using assms
  by (auto simp: submit_answer_v1_def Let_def split: if_splits option.splits)

lemma recorded_step:
  assumes r: "recorded xs s"
    and q: "current_question s < length (quiz_questions s)"
    and c: "correct (quiz_questions s ! current_question s) = Some c"
    and s': "s' = s\<lparr>score := (if x = c then score s + 1 else score s),
                     answers := answers s @
                       [\<lparr>a_question = qt, selected = x, a_correct = c, is_correct = (x = c),
                         a_explanation = ex,
                         a_difficulty = Some (get_default
                           (difficulty (quiz_questions s ! current_question s)) ''medium''),
                         a_category = cat\<rparr>],
                     current_question := current_question s + 1\<rparr>"
  shows "recorded (xs @ [x]) s' \<and> quiz_questions s' = quiz_questions s"
proof -
  have n: "current_question s = length xs"
    using r by (simp add: recorded_def)
  have t: "take (Suc (length xs)) (quiz_questions s)
      = take (length xs) (quiz_questions s) @ [quiz_questions s ! length xs]"
    using q n by (simp add: take_Suc_conv_app_nth)
  show ?thesis
    using r q c by (simp add: recorded_def s' n t)
qed

lemma recorded_submit_answer:
  assumes "recorded xs s" and "submit_answer x s = (None, s')"
  shows "recorded (xs @ [x]) s' \<and> quiz_questions s' = quiz_questions s"
proof -
  from submit_answer_returns [OF assms(2)] obtain c qt ex where
    "current_question s < length (quiz_questions s)"
    "correct (quiz_questions s ! current_question s) = Some c"
    "s' = s\<lparr>score := (if x = c then score s + 1 else score s),
             answers := answers s @
               [\<lparr>a_question = qt, selected = x, a_correct = c, is_correct = (x = c),
                 a_explanation = ex,
                 a_difficulty = Some (get_default
                   (difficulty (quiz_questions s ! current_question s)) ''medium''),
                 a_category = Some (get_default
                   (category (quiz_questions s ! current_question s)) ''Unknown'')\<rparr>],
             current_question := current_question s + 1\<rparr>"
    by blast
  with assms(1) show ?thesis
    by (rule recorded_step)
qed

lemma recorded_submit_answer_v1:
  assumes "recorded xs s" and "submit_answer_v1 x s = (None, s')"
  shows "recorded (xs @ [x]) s' \<and> quiz_questions s' = quiz_questions s"
proof -
  from submit_answer_v1_returns [OF assms(2)] obtain c qt ex where
    "current_question s < length (quiz_questions s)"
    "correct (quiz_questions s ! current_question s) = Some c"
    "s' = s\<lparr>score := (if x = c then score s + 1 else score s),
             answers := answers s @
               [\<lparr>a_question = qt, selected = x, a_correct = c, is_correct = (x = c),
                 a_explanation = ex,
                 a_difficulty = Some (get_default
                   (difficulty (quiz_questions s ! current_question s)) ''medium''),
                 a_category = None\<rparr>],
             current_question := current_question s + 1\<rparr>"
    by blast
  with assms(1) show ?thesis
    by (rule recorded_step)
qed

lemma recorded_submit_answers:
  "recorded xs s \<Longrightarrow> submit_answers v1 ys s = (None, s') \<Longrightarrow>
     recorded (xs @ ys) s' \<and> quiz_questions s' = quiz_questions s"
proof (induction ys arbitrary: xs s)
  case Nil
  then show ?case by simp
next
  case (Cons y ys)
  obtain e s1 where one: "(if v1 then submit_answer_v1 y s else submit_answer y s) = (e, s1)"
    by (cases "if v1 then submit_answer_v1 y s else submit_answer y s")
  have e: "e = None"
    using Cons.prems(2) one by (cases e) simp_all
  have rest: "submit_answers v1 ys s1 = (None, s')"
    using Cons.prems(2) one e by simp
  have "recorded (xs @ [y]) s1 \<and> quiz_questions s1 = quiz_questions s"
  proof (cases v1)
    case True
    then show ?thesis
      using one e recorded_submit_answer_v1 [OF Cons.prems(1)] by simp
  next
    case False
    then show ?thesis
      using one e recorded_submit_answer [OF Cons.prems(1)] by simp
  qed
  then show ?case
    using Cons.IH [of "xs @ [y]" s1] rest by simp
qed

lemma recorded_start_quiz:
  "fst (start_quiz d c picks s) \<Longrightarrow> recorded [] (snd (snd (start_quiz d c picks s)))"
  by (auto simp: start_quiz_def recorded_def random_sample_num_questions Let_def split: if_splits)

lemma recorded_start_quiz_v1:
  "fst (start_quiz_v1 d picks s) \<Longrightarrow> recorded [] (snd (snd (start_quiz_v1 d picks s)))"
  by (auto simp: start_quiz_v1_def recorded_def random_sample_num_questions Let_def
      split: if_splits)

text \<open>
  Claim C3. After \<^verbatim>\<open>start_quiz\<close> has succeeded and \<open>k\<close> calls of \<^verbatim>\<open>submit_answer\<close> have
  returned, \<open>k\<close> is at most the number of drawn questions, the position and the length of
  the answer log are both \<open>k\<close>, the score is the number of records marked correct, and a
  record is marked correct exactly when its selected index is the correct index of the
  question it answers, which is the drawn question at the record's position.
\<close>

theorem answers_invariant:
  assumes "fst (start_quiz d c picks s)"
    and "submit_answers False xs (snd (snd (start_quiz d c picks s))) = (None, s')"
  shows "length xs \<le> length (quiz_questions s')
       \<and> quiz_questions s' = quiz_questions (snd (snd (start_quiz d c picks s)))
       \<and> current_question s' = length xs
       \<and> length (answers s') = length xs
       \<and> score s' = length (filter is_correct (answers s'))
       \<and> map selected (answers s') = xs
       \<and> map is_correct (answers s') = map (\<lambda>a. selected a = a_correct a) (answers s')
       \<and> map (\<lambda>a. Some (a_correct a)) (answers s')
           = map correct (take (length xs) (quiz_questions s'))"
proof -
  have "recorded ([] @ xs) s'
      \<and> quiz_questions s' = quiz_questions (snd (snd (start_quiz d c picks s)))"
    using recorded_start_quiz [OF assms(1)] assms(2) by (rule recorded_submit_answers)
  then have r: "recorded xs s'"
    and q: "quiz_questions s' = quiz_questions (snd (snd (start_quiz d c picks s)))"
    by simp_all
  have "length (map selected (answers s')) = length xs"
    using r by (simp only: recorded_def)
  then have l: "length (answers s') = length xs"
    by simp
  show ?thesis
    using r q l by (simp add: recorded_def)
qed

theorem answers_invariant_witness:
  "fst (start_quiz ''easy'' ''all'' picks3 loaded5)
   \<and> fst (submit_answers False [0, 1] (snd (snd (start_quiz ''easy'' ''all'' picks3 loaded5)))) = None
   \<and> current_question
        (snd (submit_answers False [0, 1] (snd (snd (start_quiz ''easy'' ''all'' picks3 loaded5))))) = 2
   \<and> length (answers
        (snd (submit_answers False [0, 1] (snd (snd (start_quiz ''easy'' ''all'' picks3 loaded5)))))) = 2
   \<and> score
        (snd (submit_answers False [0, 1] (snd (snd (start_quiz ''easy'' ''all'' picks3 loaded5))))) = 1
   \<and> map is_correct (answers
        (snd (submit_answers False [0, 1] (snd (snd (start_quiz ''easy'' ''all'' picks3 loaded5))))))
       = [True, False]"
proof -
  let ?s1 = "snd (snd (start_quiz ''easy'' ''all'' picks3 loaded5))"
  have ok: "fst (start_quiz ''easy'' ''all'' picks3 loaded5)"
    by (simp add: start_easy_example)
  have s1: "?s1 = started3"
    by (simp add: start_easy_example)
  have run: "fst (submit_answers False [0, 1] ?s1) = None
      \<and> score (snd (submit_answers False [0, 1] ?s1)) = 1
      \<and> map is_correct (answers (snd (submit_answers False [0, 1] ?s1))) = [True, False]"
    unfolding s1
    by (simp add: started3_def submit_answer_def Let_def loaded5_def bank5_def initial_state_def mk_question_def get_default_def)
  then have h: "submit_answers False [0, 1] ?s1 = (None, snd (submit_answers False [0, 1] ?s1))"
    by (simp add: prod_eq_iff)
  show ?thesis
    using answers_invariant [OF ok h] ok run by simp
qed

text \<open>
  Claim C2, as amended. \<^verbatim>\<open>submit_answer\<close> never looks at the option list, so it has no
  invalid choice: in a session in progress whose current question carries its question
  text, its explanation and a correct index inside the option list, a selected index
  outside the option list is taken as a wrong answer. The call returns, the score is
  unchanged, one record marked incorrect is appended and the position advances by one.
  Both variants.
\<close>

theorem submit_answer_out_of_range:
  assumes "current_question s < length (quiz_questions s)"
    and "correct (quiz_questions s ! current_question s) = Some c"
    and "0 \<le> c \<and> c < int (length (options (quiz_questions s ! current_question s)))"
    and "question_text (quiz_questions s ! current_question s) = Some qt"
    and "explanation (quiz_questions s ! current_question s) = Some ex"
    and "x < 0 \<or> int (length (options (quiz_questions s ! current_question s))) \<le> x"
  shows "submit_answer x s =
           (None,
            s\<lparr>answers := answers s @
                 [\<lparr>a_question = qt, selected = x, a_correct = c, is_correct = False,
                   a_explanation = ex,
                   a_difficulty = Some (get_default
                     (difficulty (quiz_questions s ! current_question s)) ''medium''),
                   a_category = Some (get_default
                     (category (quiz_questions s ! current_question s)) ''Unknown'')\<rparr>],
               current_question := current_question s + 1\<rparr>)
       \<and> score (snd (submit_answer x s)) = score s
       \<and> current_question (snd (submit_answer x s)) = current_question s + 1
       \<and> length (answers (snd (submit_answer x s))) = length (answers s) + 1
       \<and> fst (submit_answer_v1 x s) = None
       \<and> score (snd (submit_answer_v1 x s)) = score s
       \<and> current_question (snd (submit_answer_v1 x s)) = current_question s + 1
       \<and> length (answers (snd (submit_answer_v1 x s))) = length (answers s) + 1"
proof -
  have ne: "x \<noteq> c"
    using assms(3) assms(6) by auto
  show ?thesis
    using assms(1) assms(2) assms(4) assms(5) ne
    by (simp add: submit_answer_def submit_answer_v1_def Let_def)
qed

theorem submit_answer_out_of_range_witness:
  "current_question in_progress < length (quiz_questions in_progress)
   \<and> correct (quiz_questions in_progress ! current_question in_progress) = Some 0
   \<and> (0::int) \<le> 0
   \<and> 0 < int (length (options (quiz_questions in_progress ! current_question in_progress)))
   \<and> question_text (quiz_questions in_progress ! current_question in_progress) = Some ''e1''
   \<and> explanation (quiz_questions in_progress ! current_question in_progress) = Some ''because''
   \<and> int (length (options (quiz_questions in_progress ! current_question in_progress))) \<le> 7
   \<and> fst (submit_answer 7 in_progress) = None
   \<and> score (snd (submit_answer 7 in_progress)) = score in_progress
   \<and> current_question (snd (submit_answer 7 in_progress)) = current_question in_progress + 1
   \<and> fst (submit_answer_v1 7 in_progress) = None"
proof -
  have a: "current_question in_progress < length (quiz_questions in_progress)"
    by (simp add: in_progress_def initial_state_def mk_question_def)
  have b: "correct (quiz_questions in_progress ! current_question in_progress) = Some 0"
    by (simp add: in_progress_def initial_state_def mk_question_def)
  have c: "0 \<le> (0::int)
      \<and> 0 < int (length (options (quiz_questions in_progress ! current_question in_progress)))"
    by (simp add: in_progress_def initial_state_def mk_question_def)
  have d: "question_text (quiz_questions in_progress ! current_question in_progress) = Some ''e1''"
    by (simp add: in_progress_def initial_state_def mk_question_def)
  have e: "explanation (quiz_questions in_progress ! current_question in_progress) = Some ''because''"
    by (simp add: in_progress_def initial_state_def mk_question_def)
  have f: "7 < (0::int)
      \<or> int (length (options (quiz_questions in_progress ! current_question in_progress))) \<le> 7"
    by (simp add: in_progress_def initial_state_def mk_question_def)
  have g: "int (length (options (quiz_questions in_progress ! current_question in_progress))) \<le> 7"
    by (simp add: in_progress_def initial_state_def mk_question_def)
  show ?thesis
    using submit_answer_out_of_range [OF a b c d e f] a b c d e g by simp
qed

text \<open>
  Claim C2 as the specification states it fails: in the session in progress on a question
  with two options, the selected index 7 is accepted in both variants, the position
  moves from 0 to 1 and the answer log grows from empty to one record.
\<close>

theorem submit_answer_invalid_choice_counterexample:
  "current_question in_progress < length (quiz_questions in_progress)
   \<and> \<not> (0 \<le> (7::int)
        \<and> 7 < int (length (options (quiz_questions in_progress ! current_question in_progress))))
   \<and> fst (submit_answer 7 in_progress) = None
   \<and> current_question in_progress = 0
   \<and> current_question (snd (submit_answer 7 in_progress)) = 1
   \<and> answers in_progress = []
   \<and> length (answers (snd (submit_answer 7 in_progress))) = 1
   \<and> fst (submit_answer_v1 7 in_progress) = None
   \<and> current_question (snd (submit_answer_v1 7 in_progress)) = 1
   \<and> length (answers (snd (submit_answer_v1 7 in_progress))) = 1"
  by (simp add: submit_answer_def submit_answer_v1_def Let_def in_progress_def initial_state_def mk_question_def)

subsection \<open>Weighted score\<close>

lemma weight_of_recorded:
  assumes "a_difficulty a = Some (get_default (difficulty q) ''medium'')"
  shows "get_default (difficulty_weights (lower (get_default (difficulty q) ''medium''))) 2
       = spec_weight a"
proof -
  have "get_default (difficulty_weights d) 2
      = (if d = ''easy'' then 1 else if d = ''medium'' then 2 else if d = ''hard'' then 3 else 2)"
    for d
    by (simp add: difficulty_weights_def get_default_def)
  then show ?thesis
    using assms by (simp add: spec_weight_def)
qed

lemma difficulty_score_loop_sums:
  "map a_difficulty as
     = map (\<lambda>q. Some (get_default (difficulty q) ''medium'')) (take (length as) (drop i qs))
   \<Longrightarrow> difficulty_score_loop qs i as (t, m)
     = Inr (t + sum_list (map spec_weight (filter is_correct as)),
            m + sum_list (map spec_weight as))"
proof (induction as arbitrary: i t m)
  case Nil
  then show ?case by simp
next
  case (Cons a as)
  have "length (map a_difficulty (a # as))
      = length (map (\<lambda>q. Some (get_default (difficulty q) ''medium''))
          (take (length (a # as)) (drop i qs)))"
    by (simp only: Cons.prems)
  then have i: "i < length qs"
    by simp
  then have d: "drop i qs = qs ! i # drop (Suc i) qs"
    by (simp add: Cons_nth_drop_Suc)
  have hd: "a_difficulty a = Some (get_default (difficulty (qs ! i)) ''medium'')"
    using Cons.prems by (simp add: d)
  have tl: "map a_difficulty as
      = map (\<lambda>q. Some (get_default (difficulty q) ''medium'')) (take (length as) (drop (Suc i) qs))"
    using Cons.prems by (simp add: d)
  have w: "get_default (difficulty_weights (lower (get_default (difficulty (qs ! i)) ''medium''))) 2
      = spec_weight a"
    using hd by (rule weight_of_recorded)
  have step: "difficulty_score_loop qs i (a # as) (t, m)
      = difficulty_score_loop qs (Suc i) as
          (if is_correct a then t + spec_weight a else t, m + spec_weight a)"
    using i by (simp add: Let_def w)
  show ?case
    by (simp only: step Cons.IH [OF tl]) simp
qed

text \<open>
  Claim C6. For an answer log recorded from the drawn questions (each record carries the
  difficulty of the question at its position, \<open>medium\<close> when the question has none),
  \<^verbatim>\<open>calculate_difficulty_score\<close> returns the pair of the specification: the sum of the
  weights of the correct answers and the sum of the weights of all answers, with weight
  1 for easy, 2 for medium, 3 for hard and 2 otherwise, compared without regard to case.
\<close>

theorem calculate_difficulty_score_weights:
  assumes "map a_difficulty as
      = map (\<lambda>q. Some (get_default (difficulty q) ''medium''))
          (take (length as) (quiz_questions s))"
  shows "calculate_difficulty_score as s = Inr (spec_weighted_score as)"
  using difficulty_score_loop_sums [of as 0 "quiz_questions s" 0 0] assms
  by (simp add: calculate_difficulty_score_def spec_weighted_score_def)

lemma recorded_log_difficulties:
  assumes "recorded xs s"
  shows "map a_difficulty (answers s)
      = map (\<lambda>q. Some (get_default (difficulty q) ''medium''))
          (take (length (answers s)) (quiz_questions s))"
proof -
  have "length (map selected (answers s)) = length xs"
    using assms by (simp only: recorded_def)
  then have "length (answers s) = length xs"
    by simp
  then show ?thesis
    using assms by (simp add: recorded_def)
qed

theorem calculate_difficulty_score_weights_witness:
  "map a_difficulty log2
     = map (\<lambda>q. Some (get_default (difficulty q) ''medium''))
         (take (length log2) (quiz_questions in_progress))
   \<and> calculate_difficulty_score log2 in_progress = Inr (1, 4)
   \<and> spec_weighted_score log2 = (1, 4)
   \<and> map is_correct log2 = [True, False]
   \<and> map spec_weight log2 = [1, 3]
   \<and> submit_answers False [0, 0] in_progress
       = (None, in_progress\<lparr>score := 1, answers := log2, current_question := 2\<rparr>)"
proof -
  have r: "submit_answers False [0, 0] in_progress
      = (None, in_progress\<lparr>score := 1, answers := log2, current_question := 2\<rparr>)"
    by (simp add: submit_answer_def Let_def log2_def in_progress_def initial_state_def mk_question_def get_default_def)
  have h: "map a_difficulty log2
     = map (\<lambda>q. Some (get_default (difficulty q) ''medium''))
         (take (length log2) (quiz_questions in_progress))"
    by (simp add: log2_def in_progress_def initial_state_def mk_question_def get_default_def)
  have w: "map spec_weight log2 = [1, 3]"
    by (simp add: log2_def spec_weight_def lower_def lower_char_def)
  have c: "map is_correct log2 = [True, False]"
    by (simp add: log2_def)
  have f: "filter is_correct log2 = [hd log2]"
    by (simp add: log2_def)
  have s: "spec_weighted_score log2 = (1, 4)"
    using w by (simp add: spec_weighted_score_def f) (simp add: log2_def)
  show ?thesis
    using calculate_difficulty_score_weights [OF h] h w c s r by simp
qed

subsection \<open>Breakdown by difficulty\<close>

lemma breakdown_step_at:
  "breakdown_step a m k =
     (case m k of
        None \<Rightarrow> None
      | Some (c, t) \<Rightarrow>
          if breakdown_key a = k then Some (if is_correct a then c + 1 else c, t + 1)
          else Some (c, t))"
  by (auto simp: breakdown_step_def breakdown_key_def Let_def split: option.splits prod.splits)

lemma fold_breakdown_step:
  "fold breakdown_step as m k =
     (case m k of
        None \<Rightarrow> None
      | Some (c, t) \<Rightarrow>
          Some (c + length (filter (\<lambda>a. is_correct a \<and> breakdown_key a = k) as),
                t + length (filter (\<lambda>a. breakdown_key a = k) as)))"
proof (induction as arbitrary: m)
  case Nil
  then show ?case by (simp split: option.splits)
next
  case (Cons a as)
  have unfold: "fold breakdown_step (a # as) m k = fold breakdown_step as (breakdown_step a m) k"
    by simp
  have rest: "fold breakdown_step as (breakdown_step a m) k =
     (case breakdown_step a m k of
        None \<Rightarrow> None
      | Some (c, t) \<Rightarrow>
          Some (c + length (filter (\<lambda>a. is_correct a \<and> breakdown_key a = k) as),
                t + length (filter (\<lambda>a. breakdown_key a = k) as)))"
    by (rule Cons.IH)
  have first: "(case breakdown_step a m k of
        None \<Rightarrow> None
      | Some (c, t) \<Rightarrow>
          Some (c + length (filter (\<lambda>a. is_correct a \<and> breakdown_key a = k) as),
                t + length (filter (\<lambda>a. breakdown_key a = k) as))) =
     (case m k of
        None \<Rightarrow> None
      | Some (c, t) \<Rightarrow>
          Some (c + length (filter (\<lambda>a. is_correct a \<and> breakdown_key a = k) (a # as)),
                t + length (filter (\<lambda>a. breakdown_key a = k) (a # as))))"
    by (simp add: breakdown_step_at split: option.splits prod.splits)
  show ?case
    by (simp only: unfold rest first)
qed

lemma dom_fold_breakdown_step: "dom (fold breakdown_step as m) = dom m"
proof -
  have "fold breakdown_step as m k = None \<longleftrightarrow> m k = None" for k
    by (simp add: fold_breakdown_step split: option.splits prod.splits)
  then show ?thesis
    by (auto simp: dom_def)
qed

text \<open>
  Claim C7, as amended. The breakdown has exactly the keys easy, medium and hard. Under
  each key it holds the number of correct answers and the number of all answers whose
  difficulty, lower-cased, is that key, where an answer without difficulty counts as
  medium; an answer with any other difficulty is counted under no key.
\<close>

theorem difficulty_breakdown_groups:
  "dom (difficulty_breakdown as) = {''easy'', ''medium'', ''hard''}
   \<and> difficulty_breakdown as ''easy''
       = Some (length (filter (\<lambda>a. is_correct a \<and> breakdown_key a = ''easy'') as),
               length (filter (\<lambda>a. breakdown_key a = ''easy'') as))
   \<and> difficulty_breakdown as ''medium''
       = Some (length (filter (\<lambda>a. is_correct a \<and> breakdown_key a = ''medium'') as),
               length (filter (\<lambda>a. breakdown_key a = ''medium'') as))
   \<and> difficulty_breakdown as ''hard''
       = Some (length (filter (\<lambda>a. is_correct a \<and> breakdown_key a = ''hard'') as),
               length (filter (\<lambda>a. breakdown_key a = ''hard'') as))
   \<and> breakdown_key (a\<lparr>a_difficulty := None\<rparr>) = ''medium''
   \<and> breakdown_key (a\<lparr>a_difficulty := Some d\<rparr>) = lower d"
proof -
  have d: "dom (difficulty_breakdown as) = {''easy'', ''medium'', ''hard''}"
    by (auto simp: difficulty_breakdown_def dom_fold_breakdown_step)
  have k: "breakdown_key (a\<lparr>a_difficulty := None\<rparr>) = ''medium''
      \<and> breakdown_key (a\<lparr>a_difficulty := Some d\<rparr>) = lower d"
    by (simp add: breakdown_key_def get_default_def lower_literals)
  show ?thesis
    using d k by (simp add: difficulty_breakdown_def fold_breakdown_step)
qed

text \<open>
  Claim C7 as the specification states it fails for a missing difficulty: the record
  that \<^verbatim>\<open>submit_answer\<close> builds for a question without difficulty carries \<open>medium\<close> and
  is counted under medium, and so is a record that has no difficulty key at all.
\<close>

theorem difficulty_breakdown_missing_counterexample:
  "difficulty (quiz_questions in_progress_bare ! current_question in_progress_bare) = None
   \<and> fst (submit_answer 0 in_progress_bare) = None
   \<and> difficulty_breakdown (answers (snd (submit_answer 0 in_progress_bare))) ''medium''
       = Some (1, 1)
   \<and> a_difficulty record_without_difficulty = None
   \<and> difficulty_breakdown [record_without_difficulty] ''medium'' = Some (0, 1)"
  by (simp add: submit_answer_def Let_def difficulty_breakdown_def breakdown_step_def
      record_without_difficulty_def in_progress_bare_def bare_question_def initial_state_def mk_question_def string_defs)

subsection \<open>Loading\<close>

text \<open>
  Claim C9, as amended. \<^verbatim>\<open>load_questions_from_json\<close> never raises. On a call that the
  cache does not answer, a missing file, an unparsable file, any other exception while
  reading, and a document that is not a JSON object each give the empty bank together
  with an error notice; a JSON object without the key \<open>questions\<close> gives the empty bank
  and no notice from the loader itself (the caller \<^verbatim>\<open>initialize_questions\<close> then warns
  that no questions were loaded and returns \<open>False\<close>, as it does for every empty bank);
  a JSON object with the key gives exactly the sequence stored under it and no notice.
  Each such result is kept in the cache under the path. A call that the cache answers
  returns the kept bank whatever the file is by then, with the kept notices when the
  framework replays them and with none otherwise, and leaves the cache as it is.
\<close>

theorem load_questions_outcomes:
  "load_questions_from_json replay p Missing (cache(p := None))
     = (([], [St_error FileNotFound]), cache(p \<mapsto> ([], [St_error FileNotFound])))
   \<and> load_questions_from_json replay p (Exists JSONDecodeError) (cache(p := None))
     = (([], [St_error ErrorReadingJson]), cache(p \<mapsto> ([], [St_error ErrorReadingJson])))
   \<and> load_questions_from_json replay p (Exists Other_exception) (cache(p := None))
     = (([], [St_error ErrorLoadingQuestions]),
        cache(p \<mapsto> ([], [St_error ErrorLoadingQuestions])))
   \<and> load_questions_from_json replay p (Exists (Parsed Not_a_dict)) (cache(p := None))
     = (([], [St_error ErrorLoadingQuestions]),
        cache(p \<mapsto> ([], [St_error ErrorLoadingQuestions])))
   \<and> load_questions_from_json replay p (Exists (Parsed (Dict (data(''questions'' := None)))))
         (cache(p := None))
     = (([], []), cache(p \<mapsto> ([], [])))
   \<and> load_questions_from_json replay p (Exists (Parsed (Dict (data(''questions'' \<mapsto> qs)))))
         (cache(p := None))
     = ((qs, []), cache(p \<mapsto> (qs, [])))
   \<and> load_questions_from_json replay p file (cache(p \<mapsto> (kept, notes)))
     = ((kept, if replay then notes else []), cache(p \<mapsto> (kept, notes)))
   \<and> initialize_questions replay (Exists (Parsed (Dict (data(''questions'' := None)))))
         (cache(''questions.json'' := None)) (s\<lparr>questions_loaded := False\<rparr>)
     = (False, [St_warning NoQuestionsLoaded], cache(''questions.json'' \<mapsto> ([], [])),
        s\<lparr>questions_loaded := True, all_questions := []\<rparr>)"
  by (simp add: load_questions_from_json_def load_questions_body_def initialize_questions_def
      get_default_def Let_def)

text \<open>
  Claim C9 as the specification states it fails in two ways. On a JSON object without
  \<open>questions\<close>, with an empty cache, the loader returns the empty bank and reports
  nothing. And once a bank is in the cache, a call for a file that is missing by then
  returns that bank, not the empty one, and reports nothing, whether or not the
  framework replays messages.
\<close>

theorem load_missing_key_counterexample:
  "Map.empty ''questions'' = (None :: question list option)
   \<and> fst (load_questions_from_json True ''questions.json'' (Exists (Parsed (Dict Map.empty)))
        Map.empty) = ([], [])
   \<and> fst (load_questions_from_json False ''questions.json'' (Exists (Parsed (Dict Map.empty)))
        Map.empty) = ([], [])
   \<and> fst (load_questions_from_json True ''questions.json'' Missing
        (snd (load_questions_from_json True ''questions.json''
               (Exists (Parsed (Dict [''questions'' \<mapsto> bank5]))) Map.empty)))
       = (bank5, [])
   \<and> fst (load_questions_from_json False ''questions.json'' Missing
        (snd (load_questions_from_json False ''questions.json''
               (Exists (Parsed (Dict [''questions'' \<mapsto> bank5]))) Map.empty)))
       = (bank5, [])
   \<and> bank5 \<noteq> []"
  by (simp add: load_questions_from_json_def load_questions_body_def get_default_def Let_def
      bank5_def)

subsection \<open>The category \<open>Unknown\<close>\<close>

lemma fold_add_category:
  "fold add_category qs S =
     S \<union> {c. c \<noteq> [] \<and> c \<in> (\<lambda>q. get_default (category q) ''Unknown'') ` set qs}"
proof (induction qs arbitrary: S)
  case Nil
  then show ?case by simp
next
  case (Cons q qs)
  have unfold: "fold add_category (q # qs) S = fold add_category qs (add_category q S)"
    by simp
  have rest: "fold add_category qs (add_category q S) =
      add_category q S \<union> {c. c \<noteq> [] \<and> c \<in> (\<lambda>q. get_default (category q) ''Unknown'') ` set qs}"
    by (rule Cons.IH)
  have first: "add_category q S \<union> {c. c \<noteq> [] \<and> c \<in> (\<lambda>q. get_default (category q) ''Unknown'') ` set qs}
      = S \<union> {c. c \<noteq> [] \<and> c \<in> (\<lambda>q. get_default (category q) ''Unknown'') ` set (q # qs)}"
    by (auto simp: add_category_def Let_def)
  show ?case
    by (simp only: unfold rest first)
qed

lemma finite_fold_add_category: "finite (fold add_category qs {})"
proof -
  have "fold add_category qs {} \<subseteq> (\<lambda>q. get_default (category q) ''Unknown'') ` set qs"
    by (auto simp: fold_add_category)
  then show ?thesis
    by (rule finite_subset) simp
qed

lemma set_get_available_categories:
  "set (get_available_categories s) =
     {c. c \<noteq> [] \<and> c \<in> (\<lambda>q. get_default (category q) ''Unknown'') ` set (all_questions s)}"
proof (cases "all_questions s = []")
  case True
  then show ?thesis
    by (simp add: get_available_categories_def)
next
  case False
  then show ?thesis
    by (simp add: get_available_categories_def finite_fold_add_category fold_add_category)
qed

lemma matches_unknown:
  "(lower (get_default (category q) '''') = lower ''Unknown'') = labelled_unknown q"
proof (cases "category q")
  case None
  have "lower [] = []"
    by (simp add: lower_def)
  then show ?thesis
    using None by (simp add: labelled_unknown_def get_default_def lower_literals)
next
  case (Some c)
  then show ?thesis
    by (simp add: labelled_unknown_def get_default_def lower_literals)
qed

text \<open>
  Claim C10. A bank with a question that has no category lists the label \<open>Unknown\<close>,
  but the category filter for \<open>Unknown\<close> leaves that question out: the count for the
  listed category \<open>Unknown\<close>, under every difficulty, is the count over the bank without
  its category-less questions, and with mixed difficulty it is the number of questions
  that carry a category label reading \<open>unknown\<close> in some case.
\<close>

theorem unknown_listed_but_not_matched:
  assumes "q \<in> set (all_questions s)" and "category q = None"
  shows "''Unknown'' \<in> set (get_available_categories s)
       \<and> q \<notin> set (filter_questions_by_category (all_questions s) ''Unknown'')
       \<and> get_filtered_question_count s d ''Unknown''
           = get_filtered_question_count
               (s\<lparr>all_questions := filter (\<lambda>q. category q \<noteq> None) (all_questions s)\<rparr>) d ''Unknown''
       \<and> get_filtered_question_count s ''mixed'' ''Unknown''
           = length (filter labelled_unknown (all_questions s))"
proof -
  have listed: "''Unknown'' \<in> set (get_available_categories s)"
    using assms by (force simp: set_get_available_categories get_default_def)
  have nq: "\<not> labelled_unknown q"
    using assms(2) by (simp add: labelled_unknown_def)
  have out: "q \<notin> set (filter_questions_by_category (all_questions s) ''Unknown'')"
    using nq by (simp add: filter_questions_by_category_def matches_unknown)
  have keep: "((\<exists>c. category x = Some c) \<and> labelled_unknown x) = labelled_unknown x" for x
    by (cases "category x") (simp_all add: labelled_unknown_def)
  have same: "get_filtered_question_count s d ''Unknown''
      = get_filtered_question_count
          (s\<lparr>all_questions := filter (\<lambda>q. category q \<noteq> None) (all_questions s)\<rparr>) d ''Unknown''"
    by (simp add: get_filtered_question_count_def matches_unknown keep)
  have mixed: "get_filtered_question_count s ''mixed'' ''Unknown''
      = length (filter labelled_unknown (all_questions s))"
    by (simp add: get_filtered_question_count_def matches_unknown)
  show ?thesis
    using listed out same mixed by simp
qed

theorem unknown_listed_but_not_matched_witness:
  "bare_question \<in> set (all_questions loaded_bare)
   \<and> category bare_question = None
   \<and> ''Unknown'' \<in> set (get_available_categories loaded_bare)
   \<and> bare_question \<notin> set (filter_questions_by_category (all_questions loaded_bare) ''Unknown'')
   \<and> get_filtered_question_count loaded_bare ''mixed'' ''Unknown'' = 1
   \<and> length (all_questions loaded_bare) = 2"
proof -
  have a: "bare_question \<in> set (all_questions loaded_bare)"
    by (simp add: loaded_bare_def)
  have b: "category bare_question = None"
    by (simp add: bare_question_def mk_question_def)
  have n: "length (filter labelled_unknown (all_questions loaded_bare)) = 1"
    by (simp add: labelled_unknown_def loaded_bare_def bare_question_def initial_state_def mk_question_def lower_def lower_char_def)
  have l: "length (all_questions loaded_bare) = 2"
    by (simp add: loaded_bare_def)
  show ?thesis
    using unknown_listed_but_not_matched [OF a b, of "''mixed''"] a b n l by simp
qed

end
